theory Spec2Isabelle
  imports Main "HOL-Library.Sublist"
begin

section \<open>Exceptions and results\<close>

text \<open>
  The exception classes that \<^verbatim>\<open>crawler.py\<close> and \<^verbatim>\<open>simple.py\<close> raise, catch or let
  through. \<open>CrawlWarning\<close> and \<open>CrawlError\<close> are declared in \<^verbatim>\<open>crawler.py\<close>; the others
  are imported or built in. Each carries the message it was raised with.
  \<open>ConfigurationError\<close> is the error of \<^verbatim>\<open>Section.invalid_value\<close> (key, offending value,
  reason). \<open>OtherException\<close> stands for every class not named here.
\<close>

datatype exn =
    CrawlWarning string
  | CrawlError string
  | OutputDirError string
  | MarkDuplicateError string
  | MarkConflictError string
  | RuntimeError string
  | AuthException string
  | ConfigurationError string int string
  | ValueError string
  | TypeError string
  | EOFError
  | CancelledError
  | OtherException string

text \<open>A call either returns a value or raises.\<close>

datatype 'a outcome = Return 'a | Raise exn

section \<open>CrawlerSection (crawler.py, lines 130-196)\<close>

text \<open>
  \<^verbatim>\<open>self.s\<close> is the section of the configuration file: a dictionary from option names
  to their string values. \<^verbatim>\<open>CrawlerSection\<close> and \<^verbatim>\<open>SimpleAuthSection\<close> both hold one.
\<close>

record config_section =
  s :: "string \<rightharpoonup> string"

text \<open>\<^verbatim>\<open>self.s.get(key, fallback)\<close>: the stored string, the fallback when the key is absent.\<close>

definition get_fallback :: "config_section \<Rightarrow> string \<Rightarrow> string \<Rightarrow> string" where
  "get_fallback sec key fallback = (case s sec key of None \<Rightarrow> fallback | Some v \<Rightarrow> v)"

text \<open>
  \<^verbatim>\<open>self.s.getint(key, fallback=...)\<close>: the fallback when the key is absent, otherwise
  \<^verbatim>\<open>int(value)\<close>, which raises \<open>ValueError\<close> on a string that is no integer. Python's
  \<^verbatim>\<open>int\<close> on strings is the parameter \<open>to_int\<close> (\<open>None\<close> where it raises).
\<close>

definition getint ::
  "(string \<Rightarrow> int option) \<Rightarrow> config_section \<Rightarrow> string \<Rightarrow> int option \<Rightarrow> int option outcome" where
  "getint to_int sec key fallback =
     (case s sec key of
        None \<Rightarrow> Return fallback
      | Some v \<Rightarrow> (case to_int v of None \<Rightarrow> Raise (ValueError v) | Some i \<Rightarrow> Return (Some i)))"

text \<open>
  Modelled from the spec: \<^verbatim>\<open>Section.invalid_value\<close> is defined in \<^verbatim>\<open>config.py\<close>, which is
  not among the sources. The spec: "Each constraint violation is a configuration error
  naming the field, the offending value, and the reason." It never returns.
\<close>

definition invalid_value :: "string \<Rightarrow> int \<Rightarrow> string \<Rightarrow> 'a outcome" where
  "invalid_value key val reason = Raise (ConfigurationError key val reason)"

text \<open>
  \<^verbatim>\<open>output_dir(name)\<close>. \<^verbatim>\<open>Path(x).expanduser()\<close> is pathlib's; it is the parameter
  \<open>path_expanduser\<close>.
\<close>

definition output_dir :: "(string \<Rightarrow> 'p) \<Rightarrow> config_section \<Rightarrow> string \<Rightarrow> 'p" where
  "output_dir path_expanduser sec name =
     (let name' = (if prefix ''crawl:'' name then drop (length ''crawl:'') name else name)
      in path_expanduser (get_fallback sec ''output_dir'' name'))"

text \<open>\<^verbatim>\<open>transform()\<close>\<close>

definition transform :: "config_section \<Rightarrow> string" where
  "transform sec = get_fallback sec ''transform'' ''''"

text \<open>
  \<^verbatim>\<open>max_concurrent_tasks()\<close>. With the fallback 1 \<^verbatim>\<open>getint\<close> never gives \<open>None\<close>;
  Python's \<^verbatim>\<open>None <= 0\<close> would raise \<open>TypeError\<close>.
\<close>

definition max_concurrent_tasks :: "(string \<Rightarrow> int option) \<Rightarrow> config_section \<Rightarrow> int outcome" where
  "max_concurrent_tasks to_int sec =
     (case getint to_int sec ''max_concurrent_tasks'' (Some 1) of
        Raise e \<Rightarrow> Raise e
      | Return None \<Rightarrow> Raise (TypeError ''<='')
      | Return (Some val) \<Rightarrow>
          if val \<le> 0 then invalid_value ''max_concurrent_tasks'' val ''Must be greater than 0''
          else Return val)"

text \<open>\<^verbatim>\<open>max_concurrent_downloads()\<close>\<close>

definition max_concurrent_downloads :: "(string \<Rightarrow> int option) \<Rightarrow> config_section \<Rightarrow> int outcome" where
  "max_concurrent_downloads to_int sec =
     (case max_concurrent_tasks to_int sec of
        Raise e \<Rightarrow> Raise e
      | Return tasks \<Rightarrow>
          (case getint to_int sec ''max_concurrent_downloads'' None of
             Raise e \<Rightarrow> Raise e
           | Return None \<Rightarrow> Return tasks
           | Return (Some val) \<Rightarrow>
               if val \<le> 0 then
                 invalid_value ''max_concurrent_downloads'' val ''Must be greater than 0''
               else if val > tasks then
                 invalid_value ''max_concurrent_downloads'' val
                   ''Must not be greater than max_concurrent_tasks''
               else Return val))"

section \<open>Crawler (crawler.py)\<close>

text \<open>
  Naming: an attribute or method whose Python name starts with an underscore
  (\<^verbatim>\<open>_limiter\<close>, \<^verbatim>\<open>_cleanup\<close>, \<^verbatim>\<open>_run\<close>, \<^verbatim>\<open>_username\<close>) is written with the prefix
  \<open>u_\<close> here.

  \<^verbatim>\<open>PurePath\<close> is a list of path components. \<^verbatim>\<open>datetime\<close>, \<^verbatim>\<open>Redownload\<close> and
  \<^verbatim>\<open>OnConflict\<close> are only handed through to the output directory.
\<close>

type_synonym PurePath = "string list"

typedecl datetime

typedecl Redownload

typedecl OnConflict

text \<open>
  What a run does to the outside: the calls of the logger (\<^verbatim>\<open>log.explain_topic\<close>,
  \<^verbatim>\<open>log.explain\<close>, \<^verbatim>\<open>log.warn\<close>, \<^verbatim>\<open>log.show_progress\<close>), the calls of the
  \<^verbatim>\<open>OutputDirectory\<close> methods, and the call of the strategy \<^verbatim>\<open>_run\<close>, in the order
  in which they happen.
\<close>

datatype od_call =
    Prepare
  | LoadPrevReport
  | Download PurePath PurePath "datetime option" "Redownload option" "OnConflict option"
  | Cleanup
  | StoreReport

datatype event =
    ExplainTopic string
  | Explain string
  | Warn string
  | ShowProgressEnter
  | ShowProgressExit
  | Called od_call
  | RunCalled

text \<open>
  The Crawler object: \<^verbatim>\<open>name\<close>, \<^verbatim>\<open>error_free\<close>, \<^verbatim>\<open>_limiter\<close>, \<^verbatim>\<open>_transformer\<close> (its
  \<^verbatim>\<open>transform\<close> method, \<open>None\<close> for an excluded path) and \<^verbatim>\<open>_output_dir\<close>, together with
  the trace \<open>events\<close> of what has happened so far.
\<close>

record ('l, 'o) crawler =
  name :: string
  error_free :: bool
  u_limiter :: 'l
  u_transformer :: "PurePath \<Rightarrow> PurePath option"
  u_output_dir :: 'o
  events :: "event list"

text \<open>
  The methods of \<^verbatim>\<open>OutputDirectory\<close> (\<^verbatim>\<open>output_dir.py\<close>, not among the sources) are
  parameters: each takes the output directory's state and returns or raises, with the
  new state. \<open>'f\<close> is \<^verbatim>\<open>FileSinkToken\<close>.
\<close>

record ('o, 'f) output_directory =
  od_prepare :: "'o \<Rightarrow> unit outcome \<times> 'o"
  od_load_prev_report :: "'o \<Rightarrow> unit outcome \<times> 'o"
  od_download ::
    "'o \<Rightarrow> PurePath \<Rightarrow> PurePath \<Rightarrow> datetime option \<Rightarrow> Redownload option \<Rightarrow> OnConflict option
      \<Rightarrow> 'f option outcome \<times> 'o"
  od_cleanup :: "'o \<Rightarrow> unit outcome \<times> 'o"
  od_store_report :: "'o \<Rightarrow> unit outcome \<times> 'o"

record 'l crawl_token =
  ct_limiter :: 'l
  ct_path :: PurePath

record ('l, 'f) download_token =
  dt_limiter :: 'l
  dt_fs_token :: 'f
  dt_path :: PurePath

definition emit :: "event \<Rightarrow> ('l, 'o) crawler \<Rightarrow> ('l, 'o) crawler" where
  "emit ev c = c\<lparr>events := events c @ [ev]\<rparr>"

text \<open>A call \<^verbatim>\<open>self._output_dir.m(...)\<close>: it is recorded, and the directory's state replaced.\<close>

definition call_od ::
  "od_call \<Rightarrow> ('o \<Rightarrow> 'a outcome \<times> 'o) \<Rightarrow> ('l, 'o) crawler \<Rightarrow> 'a outcome \<times> ('l, 'o) crawler" where
  "call_od what m c =
     (case m (u_output_dir c) of (r, od') \<Rightarrow> (r, emit (Called what) (c\<lparr>u_output_dir := od'\<rparr>)))"

text \<open>Sequencing: the second statement runs only if the first returned.\<close>

definition bind ::
  "('s \<Rightarrow> 'a outcome \<times> 's) \<Rightarrow> ('a \<Rightarrow> 's \<Rightarrow> 'b outcome \<times> 's) \<Rightarrow> 's \<Rightarrow> 'b outcome \<times> 's" where
  "bind m k st = (case m st of (Raise e, st') \<Rightarrow> (Raise e, st') | (Return x, st') \<Rightarrow> k x st')"

subsection \<open>noncritical and anoncritical (lines 30-90)\<close>

text \<open>
  The clause \<^verbatim>\<open>except (CrawlWarning, OutputDirError, MarkDuplicateError, MarkConflictError) as e\<close>:
  for an exception of one of the four classes \<^verbatim>\<open>str(e)\<close>, the message it was raised with;
  \<open>None\<close> for every other exception, which the bare \<^verbatim>\<open>except:\<close> takes.
\<close>

fun warning_text :: "exn \<Rightarrow> string option" where
  "warning_text (CrawlWarning m) = Some m"
| "warning_text (OutputDirError m) = Some m"
| "warning_text (MarkDuplicateError m) = Some m"
| "warning_text (MarkConflictError m) = Some m"
| "warning_text _ = None"

text \<open>
  The positional arguments of a wrapped call: \<open>ArgCrawler\<close> is the Crawler whose state is
  threaded through, \<open>ArgOther\<close> anything that is no Crawler. The guard
  \<^verbatim>\<open>args and isinstance(args[0], Crawler)\<close>:
\<close>

datatype pyarg = ArgCrawler | ArgOther

fun is_crawler_call :: "pyarg list \<Rightarrow> bool" where
  "is_crawler_call (ArgCrawler # _) = True"
| "is_crawler_call _ = False"

definition noncritical ::
  "(pyarg list \<Rightarrow> 'k \<Rightarrow> ('l, 'o) crawler \<Rightarrow> 'a outcome \<times> ('l, 'o) crawler)
    \<Rightarrow> pyarg list \<Rightarrow> 'k \<Rightarrow> ('l, 'o) crawler \<Rightarrow> unit outcome \<times> ('l, 'o) crawler" where
  "noncritical f args kwargs c =
     (if \<not> is_crawler_call args then
        (Raise (RuntimeError ''@noncritical must only applied to Crawler methods''), c)
      else
        (case f args kwargs c of
           (Return _, c') \<Rightarrow> (Return (), c')
         | (Raise e, c') \<Rightarrow>
             (case warning_text e of
                Some msg \<Rightarrow> (Return (), (emit (Warn msg) c')\<lparr>error_free := False\<rparr>)
              | None \<Rightarrow> (Raise e, c'\<lparr>error_free := False\<rparr>))))"

text \<open>The async version; \<^verbatim>\<open>await f(...)\<close> runs \<open>f\<close> to its end.\<close>

definition anoncritical ::
  "(pyarg list \<Rightarrow> 'k \<Rightarrow> ('l, 'o) crawler \<Rightarrow> 'a outcome \<times> ('l, 'o) crawler)
    \<Rightarrow> pyarg list \<Rightarrow> 'k \<Rightarrow> ('l, 'o) crawler \<Rightarrow> unit outcome \<times> ('l, 'o) crawler" where
  "anoncritical f args kwargs c =
     (if \<not> is_crawler_call args then
        (Raise (RuntimeError ''@anoncritical must only applied to Crawler methods''), c)
      else
        (case f args kwargs c of
           (Return _, c') \<Rightarrow> (Return (), c')
         | (Raise e, c') \<Rightarrow>
             (case warning_text e of
                Some msg \<Rightarrow> (Return (), (emit (Warn msg) c')\<lparr>error_free := False\<rparr>)
              | None \<Rightarrow> (Raise e, c'\<lparr>error_free := False\<rparr>))))"

subsection \<open>Crawler.__init__ (lines 200-230)\<close>

text \<open>
  The constructors \<^verbatim>\<open>Limiter(...)\<close>, \<^verbatim>\<open>Transformer(...)\<close> and \<^verbatim>\<open>OutputDirectory(...)\<close>
  and \<^verbatim>\<open>section.delay_between_tasks()\<close> (a float) are parameters; each may raise.
  \<open>mk_output_dir\<close> receives \<^verbatim>\<open>section.output_dir(name)\<close> and stands for the working
  directory, \<^verbatim>\<open>redownload()\<close>, \<^verbatim>\<open>on_conflict()\<close> and the constructor. An \<^verbatim>\<open>__init__\<close>
  that raises yields no object.
\<close>

definition crawler_init ::
  "(string \<Rightarrow> int option) \<Rightarrow> 'd outcome \<Rightarrow> (int \<Rightarrow> int \<Rightarrow> 'd \<Rightarrow> 'l outcome)
    \<Rightarrow> (string \<Rightarrow> (PurePath \<Rightarrow> PurePath option) outcome)
    \<Rightarrow> (string \<Rightarrow> 'p) \<Rightarrow> ('p \<Rightarrow> 'o outcome)
    \<Rightarrow> string \<Rightarrow> config_section \<Rightarrow> ('l, 'o) crawler outcome" where
  "crawler_init to_int delay_between_tasks mk_limiter mk_transformer path_expanduser
      mk_output_dir nm sec =
     (case max_concurrent_tasks to_int sec of
        Raise e \<Rightarrow> Raise e
      | Return task_limit \<Rightarrow>
     (case max_concurrent_downloads to_int sec of
        Raise e \<Rightarrow> Raise e
      | Return download_limit \<Rightarrow>
     (case delay_between_tasks of
        Raise e \<Rightarrow> Raise e
      | Return task_delay \<Rightarrow>
     (case mk_limiter task_limit download_limit task_delay of
        Raise e \<Rightarrow> Raise e
      | Return l \<Rightarrow>
     (case mk_transformer (transform sec) of
        Raise e \<Rightarrow> Raise e
      | Return t \<Rightarrow>
     (case mk_output_dir (output_dir path_expanduser sec nm) of
        Raise e \<Rightarrow> Raise e
      | Return od \<Rightarrow>
          Return \<lparr>name = nm, error_free = True, u_limiter = l, u_transformer = t,
                  u_output_dir = od, events = []\<rparr>))))))"

subsection \<open>gather (lines 240-257)\<close>

text \<open>
  \<^verbatim>\<open>gather\<close> is written over asyncio: it wraps every awaitable in a task
  (\<^verbatim>\<open>asyncio.ensure_future\<close>), hands the tasks to \<^verbatim>\<open>asyncio.gather\<close>, awaits the
  result, and in the bare \<^verbatim>\<open>except:\<close> calls \<^verbatim>\<open>cancel()\<close> on every task before
  \<^verbatim>\<open>raise\<close>. The calls are recorded in the order in which the body makes them; what
  the one \<^verbatim>\<open>await\<close> of the body gives (the list of results, or the exception it
  raises) is the parameter \<open>awaited\<close>.
\<close>

datatype 'aw task = Task 'aw

datatype 'aw aio_event =
    EnsureFuture 'aw
  | AsyncioGather "'aw task list"
  | Await
  | Cancel "'aw task"

definition gather ::
  "'r list outcome \<Rightarrow> 'aw list \<Rightarrow> 'aw aio_event list
    \<Rightarrow> 'r list outcome \<times> 'aw aio_event list" where
  "gather awaited awaitables tr =
     (let tasks = map Task awaitables;
          tr1 = tr @ map EnsureFuture awaitables @ [AsyncioGather tasks, Await]
      in case awaited of
           Return results \<Rightarrow> (Return results, tr1)
         | Raise e \<Rightarrow> (Raise e, tr1 @ map Cancel tasks))"

text \<open>
  \<^verbatim>\<open>cancel()\<close> only requests a cancellation. The task acknowledges it when it runs
  next, and no task runs unless the body gives up control at an \<^verbatim>\<open>await\<close>. So the
  cancellations can be acknowledged before the body ends only if the trace has an
  await after a cancel call:
\<close>

fun awaits_after_cancel :: "'aw aio_event list \<Rightarrow> bool" where
  "awaits_after_cancel [] = False"
| "awaits_after_cancel (Cancel t # es) = (Await \<in> set es \<or> awaits_after_cancel es)"
| "awaits_after_cancel (ev # es) = awaits_after_cancel es"

subsection \<open>crawl and download (lines 259-289)\<close>

text \<open>\<^verbatim>\<open>fmt_path\<close> is imported from \<^verbatim>\<open>utils\<close> and not among the sources: a parameter.\<close>

definition crawl ::
  "(PurePath \<Rightarrow> string) \<Rightarrow> ('l, 'o) crawler \<Rightarrow> PurePath
    \<Rightarrow> 'l crawl_token option outcome \<times> ('l, 'o) crawler" where
  "crawl fmt_path c path =
     (let c1 = emit (ExplainTopic (''Decision: Crawl '' @ fmt_path path)) c in
      if u_transformer c1 path = None then
        (Return None, emit (Explain ''Answer: No'') c1)
      else
        (Return (Some \<lparr>ct_limiter = u_limiter c1, ct_path = path\<rparr>),
         emit (Explain ''Answer: Yes'') c1))"

definition download ::
  "(PurePath \<Rightarrow> string) \<Rightarrow> ('o, 'f) output_directory \<Rightarrow> ('l, 'o) crawler \<Rightarrow> PurePath
    \<Rightarrow> datetime option \<Rightarrow> Redownload option \<Rightarrow> OnConflict option
    \<Rightarrow> ('l, 'f) download_token option outcome \<times> ('l, 'o) crawler" where
  "download fmt_path od c path mtime redownload on_conflict =
     (let c1 = emit (ExplainTopic (''Decision: Download '' @ fmt_path path)) c in
      case u_transformer c1 path of
        None \<Rightarrow> (Return None, emit (Explain ''Answer: No'') c1)
      | Some transformed_path \<Rightarrow>
          (case call_od (Download path transformed_path mtime redownload on_conflict)
                  (\<lambda>d. od_download od d path transformed_path mtime redownload on_conflict) c1 of
             (Raise e, c2) \<Rightarrow> (Raise e, c2)
           | (Return None, c2) \<Rightarrow> (Return None, emit (Explain ''Answer: No'') c2)
           | (Return (Some fs_token), c2) \<Rightarrow>
               (Return (Some \<lparr>dt_limiter = u_limiter c2, dt_fs_token = fs_token, dt_path = path\<rparr>),
                emit (Explain ''Answer: Yes'') c2)))"

subsection \<open>_cleanup and run (lines 291-312)\<close>

definition u_cleanup ::
  "('o, 'f) output_directory \<Rightarrow> ('l, 'o) crawler \<Rightarrow> unit outcome \<times> ('l, 'o) crawler" where
  "u_cleanup od c =
     (let c1 = emit (ExplainTopic ''Decision: Clean up files'') c in
      if error_free c1 then
        call_od Cleanup (od_cleanup od)
          (emit (Explain ''Answer: Yes'')
            (emit (Explain ''No warnings or errors occurred during this run'') c1))
      else
        (Return (),
         emit (Explain ''Answer: No'')
           (emit (Explain ''Warnings or errors occurred during this run'') c1)))"

text \<open>\<^verbatim>\<open>await self._run()\<close>: the abstract method, supplied by the concrete crawler.\<close>

definition call_run ::
  "(('l, 'o) crawler \<Rightarrow> unit outcome \<times> ('l, 'o) crawler)
    \<Rightarrow> ('l, 'o) crawler \<Rightarrow> unit outcome \<times> ('l, 'o) crawler" where
  "call_run u_run c = u_run (emit RunCalled c)"

text \<open>
  \<^verbatim>\<open>run()\<close>. The five statements stand in a \<^verbatim>\<open>with log.show_progress():\<close> block, which
  is left on return and on an exception alike; there is no \<^verbatim>\<open>try\<close> in the body.
\<close>

definition run ::
  "('o, 'f) output_directory \<Rightarrow> (('l, 'o) crawler \<Rightarrow> unit outcome \<times> ('l, 'o) crawler)
    \<Rightarrow> ('l, 'o) crawler \<Rightarrow> unit outcome \<times> ('l, 'o) crawler" where
  "run od u_run c =
     (case bind (call_od Prepare (od_prepare od))
             (\<lambda>_. bind (call_od LoadPrevReport (od_load_prev_report od))
             (\<lambda>_. bind (call_run u_run)
             (\<lambda>_. bind (u_cleanup od)
             (\<lambda>_. call_od StoreReport (od_store_report od)))))
             (emit ShowProgressEnter c) of
        (r, c') \<Rightarrow> (r, emit ShowProgressExit c'))"

section \<open>SimpleAuthenticator (authenticators/simple.py)\<close>



















section \<open>Concrete instances\<close>

text \<open>
  A reader of integers for the strings used below, a crawler that excludes the path
  \<open>[''secret'']\<close> and passes every other path through, and an output directory whose
  state counts: \<^verbatim>\<open>cleanup\<close> adds 100 (the deletions), \<^verbatim>\<open>store_report\<close> adds 1000, and
  \<^verbatim>\<open>download\<close> approves every path.
\<close>

definition to_int_example :: "string \<Rightarrow> int option" where
  "to_int_example x =
     (if x = ''4'' then Some 4 else if x = ''2'' then Some 2
      else if x = ''9'' then Some 9 else if x = ''0'' then Some 0 else None)"

definition crawler_example :: "(unit, nat) crawler" where
  "crawler_example =
     \<lparr>name = ''kit'', error_free = True, u_limiter = (),
      u_transformer = (\<lambda>p. if p = [''secret''] then None else Some p),
      u_output_dir = 0, events = []\<rparr>"

definition od_example :: "(nat, string) output_directory" where
  "od_example =
     \<lparr>od_prepare = (\<lambda>d. (Return (), d)),
      od_load_prev_report = (\<lambda>d. (Return (), d + 1)),
      od_download = (\<lambda>d p tp mtime rd oc. (Return (Some ''sink''), d + 10)),
      od_cleanup = (\<lambda>d. (Return (), d + 100)),
      od_store_report = (\<lambda>d. (Return (), d + 1000))\<rparr>"


definition failing_strategy :: "(unit, nat) crawler \<Rightarrow> unit outcome \<times> (unit, nat) crawler" where
  "failing_strategy c = (Raise (CrawlError ''boom''), c)"

definition warning_strategy :: "(unit, nat) crawler \<Rightarrow> unit outcome \<times> (unit, nat) crawler" where
  "warning_strategy =
     anoncritical (\<lambda>args kwargs c. (Raise (CrawlWarning ''404'') :: unit outcome, c))
       [ArgCrawler] ()"

text \<open>A strategy that crawls nothing and returns.\<close>

definition quiet_strategy :: "(unit, nat) crawler \<Rightarrow> unit outcome \<times> (unit, nat) crawler" where
  "quiet_strategy c = (Return (), c)"

section \<open>Properties of CrawlerSection\<close>

text \<open>
  C10. \<^verbatim>\<open>CrawlerSection.output_dir\<close>: without a configured \<^verbatim>\<open>output_dir\<close>, a name that
  starts with "crawl:" is used without that prefix (stripped once) and every other name
  is used as it is; a configured \<^verbatim>\<open>output_dir\<close> is used verbatim whatever the name. In
  each case the result is the user expansion of the path of that string.
\<close>

theorem output_dir_default_and_explicit:
  "(s sec ''output_dir'' = None \<longrightarrow>
      output_dir path_expanduser sec (''crawl:'' @ rest) = path_expanduser rest) \<and>
   (s sec ''output_dir'' = None \<and> \<not> prefix ''crawl:'' nm \<longrightarrow>
      output_dir path_expanduser sec nm = path_expanduser nm) \<and>
   (s sec ''output_dir'' = Some v \<longrightarrow> output_dir path_expanduser sec nm = path_expanduser v)"
  by (simp add: output_dir_def get_fallback_def)

theorem output_dir_default_and_explicit_witness:
  "output_dir (\<lambda>x. ''/home/u/'' @ x) \<lparr>s = Map.empty\<rparr> ''crawl:crawl:kit'' = ''/home/u/crawl:kit'' \<and>
   output_dir (\<lambda>x. ''/home/u/'' @ x) \<lparr>s = Map.empty\<rparr> ''kit'' = ''/home/u/kit'' \<and>
   output_dir (\<lambda>x. ''/home/u/'' @ x) \<lparr>s = [''output_dir'' \<mapsto> ''crawl:out'']\<rparr> ''crawl:kit''
     = ''/home/u/crawl:out''"
  using output_dir_default_and_explicit
          [of "\<lparr>s = Map.empty\<rparr>" "\<lambda>x. ''/home/u/'' @ x" "''crawl:kit''" "''kit''" "''unused''"]
        output_dir_default_and_explicit
          [of "\<lparr>s = [''output_dir'' \<mapsto> ''crawl:out'']\<rparr>" "\<lambda>x. ''/home/u/'' @ x" "''kit''"
              "''crawl:kit''" "''crawl:out''"]
  by simp



section \<open>Properties of the Crawler\<close>

text \<open>Logging and calls of the output directory leave \<open>error_free\<close> as it is.\<close>

lemma emit_error_free: "error_free (emit ev c) = error_free c"
  by (simp add: emit_def)

lemma call_od_error_free: "error_free (snd (call_od what m c)) = error_free c"
  by (simp add: call_od_def emit_def split: prod.splits)

lemma u_cleanup_error_free: "error_free (snd (u_cleanup od c)) = error_free c"
  by (simp add: u_cleanup_def call_od_def emit_def Let_def split: prod.splits)

lemma bind_error_free:
  assumes first: "\<And>st. error_free (snd (m st)) \<Longrightarrow> error_free st"
    and rest: "\<And>x st. error_free (snd (k x st)) \<Longrightarrow> error_free st"
    and after: "error_free (snd (bind m k st))"
  shows "error_free st"
proof -
  obtain r st' where ms: "m st = (r, st')"
    by (meson surj_pair)
  have "error_free st'"
  proof (cases r)
    case (Return x)
    with after ms have "error_free (snd (k x st'))"
      by (simp add: bind_def)
    then show ?thesis
      by (rule rest)
  next
    case (Raise e)
    with after ms show ?thesis
      by (simp add: bind_def)
  qed
  with ms first [of st] show ?thesis
    by simp
qed

text \<open>
  \<open>run\<close> step by step, once \<^verbatim>\<open>prepare()\<close> and \<^verbatim>\<open>load_prev_report()\<close> have returned and the
  strategy has ended with the result \<open>res\<close> in the state \<open>c3\<close>.
\<close>

lemma run_after_strategy:
  assumes "od_prepare od (u_output_dir c) = (Return (), d1)"
    and "od_load_prev_report od d1 = (Return (), d2)"
    and "u_run (c\<lparr>u_output_dir := d2,
                  events := events c @
                    [ShowProgressEnter, Called Prepare, Called LoadPrevReport, RunCalled]\<rparr>)
           = (res, c3)"
  shows "run od u_run c =
     (case res of
        Raise e \<Rightarrow> (Raise e, emit ShowProgressExit c3)
      | Return _ \<Rightarrow>
          (case u_cleanup od c3 of
             (Raise e, c4) \<Rightarrow> (Raise e, emit ShowProgressExit c4)
           | (Return _, c4) \<Rightarrow>
               (case call_od StoreReport (od_store_report od) c4 of
                  (r5, c5) \<Rightarrow> (r5, emit ShowProgressExit c5))))"
  using assms
  by (simp add: run_def bind_def call_od_def call_run_def emit_def
        split: outcome.splits prod.splits)

text \<open>A run whose strategy never sets \<open>error_free\<close> back does not either.\<close>

lemma run_error_free:
  fixes c :: "('l, 'o) crawler" and od :: "('o, 'f) output_directory"
  assumes strategy: "\<And>x. error_free (snd (u_run x)) \<Longrightarrow> error_free x"
    and after: "error_free (snd (run od u_run c))"
  shows "error_free c"
proof -
  have store: "error_free (snd (call_od StoreReport (od_store_report od) st)) \<Longrightarrow> error_free st"
    for st :: "('l, 'o) crawler"
    by (simp add: call_od_error_free)
  have cleanup: "error_free (snd (u_cleanup od st)) \<Longrightarrow> error_free st"
    for st :: "('l, 'o) crawler"
    by (simp add: u_cleanup_error_free)
  have strat: "error_free (snd (call_run u_run st)) \<Longrightarrow> error_free st" for st
    using strategy [of "emit RunCalled st"] by (simp add: call_run_def emit_def)
  have load: "error_free (snd (call_od LoadPrevReport (od_load_prev_report od) st)) \<Longrightarrow> error_free st"
    for st :: "('l, 'o) crawler"
    by (simp add: call_od_error_free)
  have prepare: "error_free (snd (call_od Prepare (od_prepare od) st)) \<Longrightarrow> error_free st"
    for st :: "('l, 'o) crawler"
    by (simp add: call_od_error_free)
  have k4: "error_free (snd (bind (u_cleanup od)
      (\<lambda>_. call_od StoreReport (od_store_report od)) st)) \<Longrightarrow> error_free st"
    for st :: "('l, 'o) crawler"
    by (erule bind_error_free [rotated 2]) (auto dest: cleanup store)
  have k3: "error_free (snd (bind (call_run u_run)
      (\<lambda>_. bind (u_cleanup od) (\<lambda>_. call_od StoreReport (od_store_report od))) st))
      \<Longrightarrow> error_free st"
    for st :: "('l, 'o) crawler"
    by (erule bind_error_free [rotated 2]) (auto dest: strat k4)
  have k2: "error_free (snd (bind (call_od LoadPrevReport (od_load_prev_report od))
      (\<lambda>_. bind (call_run u_run)
      (\<lambda>_. bind (u_cleanup od) (\<lambda>_. call_od StoreReport (od_store_report od)))) st))
      \<Longrightarrow> error_free st"
    for st :: "('l, 'o) crawler"
    by (erule bind_error_free [rotated 2]) (auto dest: load k3)
  have k1: "error_free (snd (bind (call_od Prepare (od_prepare od))
      (\<lambda>_. bind (call_od LoadPrevReport (od_load_prev_report od))
      (\<lambda>_. bind (call_run u_run)
      (\<lambda>_. bind (u_cleanup od) (\<lambda>_. call_od StoreReport (od_store_report od))))) st))
      \<Longrightarrow> error_free st"
    for st :: "('l, 'o) crawler"
    by (erule bind_error_free [rotated 2]) (auto dest: prepare k2)
  have "error_free (snd (bind (call_od Prepare (od_prepare od))
      (\<lambda>_. bind (call_od LoadPrevReport (od_load_prev_report od))
      (\<lambda>_. bind (call_run u_run)
      (\<lambda>_. bind (u_cleanup od) (\<lambda>_. call_od StoreReport (od_store_report od)))))
      (emit ShowProgressEnter c)))"
    using after by (simp add: run_def emit_def split: prod.splits)
  then have "error_free (emit ShowProgressEnter c)"
    by (rule k1)
  then show ?thesis
    by (simp add: emit_def)
qed

text \<open>
  C3. The two-tier failure handler, for a wrapped call whose first argument is the
  Crawler. If the wrapped function raises an exception of one of the four recoverable
  classes (\<open>CrawlWarning\<close>, \<open>OutputDirError\<close>, \<open>MarkDuplicateError\<close>, \<open>MarkConflictError\<close>),
  the wrapper logs its message as a warning, sets \<open>error_free\<close> to false and returns
  normally. If it raises any other exception, the wrapper sets \<open>error_free\<close> to false
  and raises the same exception. If it returns, the wrapper returns with the state the
  function left, \<open>error_free\<close> included. \<open>noncritical\<close> and \<open>anoncritical\<close> agree.
\<close>

theorem two_tier_failure_handler:
  assumes "is_crawler_call args"
  shows
    "(f args kwargs c = (Raise e, c') \<and> warning_text e = Some msg \<longrightarrow>
        noncritical f args kwargs c
          = (Return (), c'\<lparr>error_free := False, events := events c' @ [Warn msg]\<rparr>) \<and>
        anoncritical f args kwargs c
          = (Return (), c'\<lparr>error_free := False, events := events c' @ [Warn msg]\<rparr>)) \<and>
     (f args kwargs c = (Raise e, c') \<and> warning_text e = None \<longrightarrow>
        noncritical f args kwargs c = (Raise e, c'\<lparr>error_free := False\<rparr>) \<and>
        anoncritical f args kwargs c = (Raise e, c'\<lparr>error_free := False\<rparr>)) \<and>
     (f args kwargs c = (Return x, c') \<longrightarrow>
        noncritical f args kwargs c = (Return (), c') \<and>
        anoncritical f args kwargs c = (Return (), c')) \<and>
     (warning_text e \<noteq> None \<longleftrightarrow>
        (\<exists>m. e = CrawlWarning m \<or> e = OutputDirError m \<or> e = MarkDuplicateError m
           \<or> e = MarkConflictError m))"
proof -
  have classes: "warning_text e \<noteq> None \<longleftrightarrow>
      (\<exists>m. e = CrawlWarning m \<or> e = OutputDirError m \<or> e = MarkDuplicateError m
         \<or> e = MarkConflictError m)"
    by (cases e) simp_all
  show ?thesis
    using assms classes by (simp add: noncritical_def anoncritical_def emit_def)
qed

theorem two_tier_failure_handler_witness:
  "noncritical (\<lambda>args kwargs c. (Raise (MarkDuplicateError ''twice'') :: unit outcome, c))
      [ArgCrawler, ArgOther] () crawler_example
     = (Return (), crawler_example\<lparr>error_free := False, events := [Warn ''twice'']\<rparr>) \<and>
   anoncritical (\<lambda>args kwargs c. (Raise (CrawlError ''hard'') :: unit outcome, c))
      [ArgCrawler, ArgOther] () crawler_example
     = (Raise (CrawlError ''hard''), crawler_example\<lparr>error_free := False\<rparr>) \<and>
   noncritical (\<lambda>args kwargs c. (Return (5::nat), c)) [ArgCrawler] () crawler_example
     = (Return (), crawler_example)"
  using two_tier_failure_handler
          [of "[ArgCrawler, ArgOther]"
              "\<lambda>args kwargs c. (Raise (MarkDuplicateError ''twice'') :: unit outcome, c)"
              "()" crawler_example "MarkDuplicateError ''twice''" crawler_example "''twice''"]
        two_tier_failure_handler
          [of "[ArgCrawler, ArgOther]"
              "\<lambda>args kwargs c. (Raise (CrawlError ''hard'') :: unit outcome, c)"
              "()" crawler_example "CrawlError ''hard''" crawler_example]
        two_tier_failure_handler
          [of "[ArgCrawler]" "\<lambda>args kwargs c. (Return (5::nat), c)"
              "()" crawler_example _ crawler_example _ 5]
  by (simp add: crawler_example_def)

text \<open>
  C4. For a path that the Transformer excludes (\<open>transform\<close> gives no result),
  \<open>crawl\<close> returns \<open>None\<close> and \<open>download\<close> returns \<open>None\<close>, whatever the modification
  time, the redownload override and the on-conflict override are. Either call only
  logs its decision: in the download case the OutputDirectory is neither called nor
  changed.
\<close>

theorem excluded_path_is_declined:
  assumes "u_transformer c path = None"
  shows
    "crawl fmt_path c path
       = (Return None,
          c\<lparr>events := events c @
               [ExplainTopic (''Decision: Crawl '' @ fmt_path path), Explain ''Answer: No'']\<rparr>) \<and>
     download fmt_path od c path mtime redownload on_conflict
       = (Return None,
          c\<lparr>events := events c @
               [ExplainTopic (''Decision: Download '' @ fmt_path path), Explain ''Answer: No'']\<rparr>)"
  using assms by (simp add: crawl_def download_def emit_def)

theorem excluded_path_is_declined_witness:
  "crawl (\<lambda>p. concat p) crawler_example [''secret'']
     = (Return None,
        crawler_example\<lparr>events := [ExplainTopic ''Decision: Crawl secret'', Explain ''Answer: No'']\<rparr>) \<and>
   download (\<lambda>p. concat p) od_example crawler_example [''secret''] None None None
     = (Return None,
        crawler_example\<lparr>events := [ExplainTopic ''Decision: Download secret'', Explain ''Answer: No'']\<rparr>)"
proof -
  have excluded: "u_transformer crawler_example [''secret''] = None"
    by (simp add: crawler_example_def)
  show ?thesis
    using excluded_path_is_declined
            [OF excluded, of "\<lambda>p. concat p" od_example None None None]
    by (simp add: crawler_example_def)
qed

text \<open>
  C1 (as amended). \<open>run\<close> calls \<^verbatim>\<open>store_report()\<close> exactly when \<^verbatim>\<open>prepare()\<close>,
  \<^verbatim>\<open>load_prev_report()\<close>, the strategy \<^verbatim>\<open>_run()\<close> and \<^verbatim>\<open>_cleanup()\<close> have all returned
  normally; it is then the last call inside the progress block, after the cleanup
  decision, whether \<open>error_free\<close> is still true or not. When one of the four raises,
  \<open>run\<close> leaves the progress block and raises the same exception, and
  \<^verbatim>\<open>store_report()\<close> is not called.
\<close>

theorem report_stored_when_steps_return:
  "(od_prepare od (u_output_dir c) = (Raise e, d1) \<longrightarrow>
      run od u_run c
        = (Raise e, c\<lparr>u_output_dir := d1,
                       events := events c @ [ShowProgressEnter, Called Prepare, ShowProgressExit]\<rparr>)) \<and>
   (od_prepare od (u_output_dir c) = (Return (), d1) \<and>
    od_load_prev_report od d1 = (Raise e, d2) \<longrightarrow>
      run od u_run c
        = (Raise e, c\<lparr>u_output_dir := d2,
                       events := events c @
                         [ShowProgressEnter, Called Prepare, Called LoadPrevReport,
                          ShowProgressExit]\<rparr>)) \<and>
   (od_prepare od (u_output_dir c) = (Return (), d1) \<and>
    od_load_prev_report od d1 = (Return (), d2) \<and>
    u_run (c\<lparr>u_output_dir := d2,
             events := events c @
               [ShowProgressEnter, Called Prepare, Called LoadPrevReport, RunCalled]\<rparr>)
      = (res, c3) \<longrightarrow>
      (res = Raise e \<longrightarrow>
         run od u_run c = (Raise e, c3\<lparr>events := events c3 @ [ShowProgressExit]\<rparr>)) \<and>
      (res = Return () \<and> u_cleanup od c3 = (Raise e, c4) \<longrightarrow>
         run od u_run c = (Raise e, c4\<lparr>events := events c4 @ [ShowProgressExit]\<rparr>)) \<and>
      (res = Return () \<and> u_cleanup od c3 = (Return (), c4) \<longrightarrow>
         run od u_run c
           = (fst (od_store_report od (u_output_dir c4)),
              c4\<lparr>u_output_dir := snd (od_store_report od (u_output_dir c4)),
                 events := events c4 @ [Called StoreReport, ShowProgressExit]\<rparr>) \<and>
         events c4 = events c3 @ ExplainTopic ''Decision: Clean up files'' #
           (if error_free c3
            then [Explain ''No warnings or errors occurred during this run'',
                  Explain ''Answer: Yes'', Called Cleanup]
            else [Explain ''Warnings or errors occurred during this run'',
                  Explain ''Answer: No''])))"
proof -
  have early: "od_prepare od (u_output_dir c) = (Raise e, d1) \<longrightarrow>
      run od u_run c
        = (Raise e, c\<lparr>u_output_dir := d1,
                       events := events c @ [ShowProgressEnter, Called Prepare, ShowProgressExit]\<rparr>)"
    by (simp add: run_def bind_def call_od_def emit_def)
  have load: "od_prepare od (u_output_dir c) = (Return (), d1) \<and>
    od_load_prev_report od d1 = (Raise e, d2) \<longrightarrow>
      run od u_run c
        = (Raise e, c\<lparr>u_output_dir := d2,
                       events := events c @
                         [ShowProgressEnter, Called Prepare, Called LoadPrevReport,
                          ShowProgressExit]\<rparr>)"
    by (simp add: run_def bind_def call_od_def emit_def)
  have late: "od_prepare od (u_output_dir c) = (Return (), d1) \<and>
    od_load_prev_report od d1 = (Return (), d2) \<and>
    u_run (c\<lparr>u_output_dir := d2,
             events := events c @
               [ShowProgressEnter, Called Prepare, Called LoadPrevReport, RunCalled]\<rparr>)
      = (res, c3) \<longrightarrow>
      (res = Raise e \<longrightarrow>
         run od u_run c = (Raise e, c3\<lparr>events := events c3 @ [ShowProgressExit]\<rparr>)) \<and>
      (res = Return () \<and> u_cleanup od c3 = (Raise e, c4) \<longrightarrow>
         run od u_run c = (Raise e, c4\<lparr>events := events c4 @ [ShowProgressExit]\<rparr>)) \<and>
      (res = Return () \<and> u_cleanup od c3 = (Return (), c4) \<longrightarrow>
         run od u_run c
           = (fst (od_store_report od (u_output_dir c4)),
              c4\<lparr>u_output_dir := snd (od_store_report od (u_output_dir c4)),
                 events := events c4 @ [Called StoreReport, ShowProgressExit]\<rparr>) \<and>
         events c4 = events c3 @ ExplainTopic ''Decision: Clean up files'' #
           (if error_free c3
            then [Explain ''No warnings or errors occurred during this run'',
                  Explain ''Answer: Yes'', Called Cleanup]
            else [Explain ''Warnings or errors occurred during this run'',
                  Explain ''Answer: No'']))"
  proof (intro impI, elim conjE)
    assume p: "od_prepare od (u_output_dir c) = (Return (), d1)"
      and l: "od_load_prev_report od d1 = (Return (), d2)"
      and r: "u_run (c\<lparr>u_output_dir := d2,
             events := events c @
               [ShowProgressEnter, Called Prepare, Called LoadPrevReport, RunCalled]\<rparr>)
         = (res, c3)"
    note steps = run_after_strategy [where u_run = u_run and c = c, OF p l r]
    have trace: "u_cleanup od c3 = (Return (), c4) \<longrightarrow>
        events c4 = events c3 @ ExplainTopic ''Decision: Clean up files'' #
           (if error_free c3
            then [Explain ''No warnings or errors occurred during this run'',
                  Explain ''Answer: Yes'', Called Cleanup]
            else [Explain ''Warnings or errors occurred during this run'',
                  Explain ''Answer: No''])"
      by (auto simp: u_cleanup_def call_od_def emit_def Let_def split: prod.splits if_splits)
    show "(res = Raise e \<longrightarrow>
         run od u_run c = (Raise e, c3\<lparr>events := events c3 @ [ShowProgressExit]\<rparr>)) \<and>
      (res = Return () \<and> u_cleanup od c3 = (Raise e, c4) \<longrightarrow>
         run od u_run c = (Raise e, c4\<lparr>events := events c4 @ [ShowProgressExit]\<rparr>)) \<and>
      (res = Return () \<and> u_cleanup od c3 = (Return (), c4) \<longrightarrow>
         run od u_run c
           = (fst (od_store_report od (u_output_dir c4)),
              c4\<lparr>u_output_dir := snd (od_store_report od (u_output_dir c4)),
                 events := events c4 @ [Called StoreReport, ShowProgressExit]\<rparr>) \<and>
         events c4 = events c3 @ ExplainTopic ''Decision: Clean up files'' #
           (if error_free c3
            then [Explain ''No warnings or errors occurred during this run'',
                  Explain ''Answer: Yes'', Called Cleanup]
            else [Explain ''Warnings or errors occurred during this run'',
                  Explain ''Answer: No'']))"
      using steps trace
      by (simp add: call_od_def emit_def split: prod.splits)
  qed
  from early load late show ?thesis
    by blast
qed

theorem report_stored_when_steps_return_witness:
  "run od_example warning_strategy crawler_example
     = (Return (),
        crawler_example\<lparr>error_free := False, u_output_dir := 1001,
          events := [ShowProgressEnter, Called Prepare, Called LoadPrevReport, RunCalled,
                     Warn ''404'', ExplainTopic ''Decision: Clean up files'',
                     Explain ''Warnings or errors occurred during this run'',
                     Explain ''Answer: No'', Called StoreReport, ShowProgressExit]\<rparr>)"
  using report_stored_when_steps_return
          [where od = od_example and c = crawler_example and u_run = warning_strategy
             and ?d1.0 = 0 and ?d2.0 = 1 and res = "Return ()"
             and ?c3.0 = "crawler_example\<lparr>error_free := False, u_output_dir := 1,
                   events := [ShowProgressEnter, Called Prepare, Called LoadPrevReport,
                              RunCalled, Warn ''404'']\<rparr>"
             and ?c4.0 = "crawler_example\<lparr>error_free := False, u_output_dir := 1,
                   events := [ShowProgressEnter, Called Prepare, Called LoadPrevReport,
                              RunCalled, Warn ''404'',
                              ExplainTopic ''Decision: Clean up files'',
                              Explain ''Warnings or errors occurred during this run'',
                              Explain ''Answer: No'']\<rparr>"]
  by (simp add: od_example_def crawler_example_def warning_strategy_def anoncritical_def
        u_cleanup_def emit_def Let_def)

text \<open>
  C1 as stated fails: when the strategy raises a hard crawl error, \<open>run\<close> raises it
  and \<^verbatim>\<open>store_report()\<close> is never called (the directory's state is the one
  \<^verbatim>\<open>load_prev_report()\<close> left).
\<close>

theorem report_not_stored_counterexample:
  "run od_example failing_strategy crawler_example
     = (Raise (CrawlError ''boom''),
        crawler_example\<lparr>u_output_dir := 1,
          events := [ShowProgressEnter, Called Prepare, Called LoadPrevReport, RunCalled,
                     ShowProgressExit]\<rparr>)"
  by (simp add: run_def bind_def call_od_def call_run_def emit_def od_example_def
        crawler_example_def failing_strategy_def)

text \<open>
  C2. \<^verbatim>\<open>_cleanup()\<close> calls \<^verbatim>\<open>OutputDirectory.cleanup()\<close> if \<open>error_free\<close> is true when it
  runs, and otherwise only logs its decision and leaves the output directory as it
  is. In a run in which \<^verbatim>\<open>prepare()\<close>, \<^verbatim>\<open>load_prev_report()\<close> and the strategy have
  returned, leaving the state \<open>c3\<close>: if \<open>error_free\<close> is true in \<open>c3\<close>, \<open>run\<close> calls
  \<^verbatim>\<open>cleanup()\<close> on the directory and, when that returns, \<^verbatim>\<open>store_report()\<close> on the
  directory \<^verbatim>\<open>cleanup()\<close> left; if \<open>error_free\<close> is false in \<open>c3\<close>, \<open>run\<close> does not call
  \<^verbatim>\<open>cleanup()\<close> and calls \<^verbatim>\<open>store_report()\<close> on the directory as the strategy left it.
  A recoverable failure in a wrapped leaf operation leaves \<open>error_free\<close> false.
\<close>

theorem cleanup_iff_error_free:
  "(error_free c \<longrightarrow>
      u_cleanup od c
        = (fst (od_cleanup od (u_output_dir c)),
           c\<lparr>u_output_dir := snd (od_cleanup od (u_output_dir c)),
             events := events c @
               [ExplainTopic ''Decision: Clean up files'',
                Explain ''No warnings or errors occurred during this run'',
                Explain ''Answer: Yes'', Called Cleanup]\<rparr>)) \<and>
   (\<not> error_free c \<longrightarrow>
      u_cleanup od c
        = (Return (),
           c\<lparr>events := events c @
               [ExplainTopic ''Decision: Clean up files'',
                Explain ''Warnings or errors occurred during this run'',
                Explain ''Answer: No'']\<rparr>)) \<and>
   (od_prepare od (u_output_dir c0) = (Return (), d1) \<and>
    od_load_prev_report od d1 = (Return (), d2) \<and>
    u_run (c0\<lparr>u_output_dir := d2,
              events := events c0 @
                [ShowProgressEnter, Called Prepare, Called LoadPrevReport, RunCalled]\<rparr>)
      = (Return (), c3) \<longrightarrow>
      (Called Cleanup \<in> set (drop (length (events c3)) (events (snd (run od u_run c0))))
         \<longleftrightarrow> error_free c3) \<and>
      (error_free c3 \<and> od_cleanup od (u_output_dir c3) = (Return (), d4) \<longrightarrow>
         run od u_run c0
           = (fst (od_store_report od d4),
              c3\<lparr>u_output_dir := snd (od_store_report od d4),
                 events := events c3 @
                   [ExplainTopic ''Decision: Clean up files'',
                    Explain ''No warnings or errors occurred during this run'',
                    Explain ''Answer: Yes'', Called Cleanup, Called StoreReport,
                    ShowProgressExit]\<rparr>)) \<and>
      (error_free c3 \<and> od_cleanup od (u_output_dir c3) = (Raise ce, d4) \<longrightarrow>
         run od u_run c0
           = (Raise ce,
              c3\<lparr>u_output_dir := d4,
                 events := events c3 @
                   [ExplainTopic ''Decision: Clean up files'',
                    Explain ''No warnings or errors occurred during this run'',
                    Explain ''Answer: Yes'', Called Cleanup, ShowProgressExit]\<rparr>)) \<and>
      (\<not> error_free c3 \<longrightarrow>
         run od u_run c0
           = (fst (od_store_report od (u_output_dir c3)),
              c3\<lparr>u_output_dir := snd (od_store_report od (u_output_dir c3)),
                 events := events c3 @
                   [ExplainTopic ''Decision: Clean up files'',
                    Explain ''Warnings or errors occurred during this run'',
                    Explain ''Answer: No'', Called StoreReport, ShowProgressExit]\<rparr>)) \<and>
      (\<not> error_free c3 \<longrightarrow>
         u_output_dir (snd (run od u_run c0)) = snd (od_store_report od (u_output_dir c3)))) \<and>
   (is_crawler_call args \<and> f args kwargs c = (Raise e, c') \<and> warning_text e = Some msg \<longrightarrow>
      \<not> error_free (snd (noncritical f args kwargs c)) \<and>
      \<not> error_free (snd (anoncritical f args kwargs c)))"
proof -
  have decision: "(error_free c \<longrightarrow>
      u_cleanup od c
        = (fst (od_cleanup od (u_output_dir c)),
           c\<lparr>u_output_dir := snd (od_cleanup od (u_output_dir c)),
             events := events c @
               [ExplainTopic ''Decision: Clean up files'',
                Explain ''No warnings or errors occurred during this run'',
                Explain ''Answer: Yes'', Called Cleanup]\<rparr>)) \<and>
   (\<not> error_free c \<longrightarrow>
      u_cleanup od c
        = (Return (),
           c\<lparr>events := events c @
               [ExplainTopic ''Decision: Clean up files'',
                Explain ''Warnings or errors occurred during this run'',
                Explain ''Answer: No'']\<rparr>))"
    by (simp add: u_cleanup_def call_od_def emit_def Let_def split: prod.splits)
  have in_run: "od_prepare od (u_output_dir c0) = (Return (), d1) \<and>
    od_load_prev_report od d1 = (Return (), d2) \<and>
    u_run (c0\<lparr>u_output_dir := d2,
              events := events c0 @
                [ShowProgressEnter, Called Prepare, Called LoadPrevReport, RunCalled]\<rparr>)
      = (Return (), c3) \<longrightarrow>
      (Called Cleanup \<in> set (drop (length (events c3)) (events (snd (run od u_run c0))))
         \<longleftrightarrow> error_free c3) \<and>
      (error_free c3 \<and> od_cleanup od (u_output_dir c3) = (Return (), d4) \<longrightarrow>
         run od u_run c0
           = (fst (od_store_report od d4),
              c3\<lparr>u_output_dir := snd (od_store_report od d4),
                 events := events c3 @
                   [ExplainTopic ''Decision: Clean up files'',
                    Explain ''No warnings or errors occurred during this run'',
                    Explain ''Answer: Yes'', Called Cleanup, Called StoreReport,
                    ShowProgressExit]\<rparr>)) \<and>
      (error_free c3 \<and> od_cleanup od (u_output_dir c3) = (Raise ce, d4) \<longrightarrow>
         run od u_run c0
           = (Raise ce,
              c3\<lparr>u_output_dir := d4,
                 events := events c3 @
                   [ExplainTopic ''Decision: Clean up files'',
                    Explain ''No warnings or errors occurred during this run'',
                    Explain ''Answer: Yes'', Called Cleanup, ShowProgressExit]\<rparr>)) \<and>
      (\<not> error_free c3 \<longrightarrow>
         run od u_run c0
           = (fst (od_store_report od (u_output_dir c3)),
              c3\<lparr>u_output_dir := snd (od_store_report od (u_output_dir c3)),
                 events := events c3 @
                   [ExplainTopic ''Decision: Clean up files'',
                    Explain ''Warnings or errors occurred during this run'',
                    Explain ''Answer: No'', Called StoreReport, ShowProgressExit]\<rparr>)) \<and>
      (\<not> error_free c3 \<longrightarrow>
         u_output_dir (snd (run od u_run c0)) = snd (od_store_report od (u_output_dir c3)))"
  proof (intro impI, elim conjE)
    assume p: "od_prepare od (u_output_dir c0) = (Return (), d1)"
      and l: "od_load_prev_report od d1 = (Return (), d2)"
      and r: "u_run (c0\<lparr>u_output_dir := d2,
              events := events c0 @
                [ShowProgressEnter, Called Prepare, Called LoadPrevReport, RunCalled]\<rparr>)
         = (Return (), c3)"
    note steps = run_after_strategy [where u_run = u_run and c = c0, OF p l r]
    have label: "Called Cleanup
        \<in> set (drop (length (events c3)) (events (snd (run od u_run c0))))
        \<longleftrightarrow> error_free c3"
      unfolding steps
      by (simp add: u_cleanup_def call_od_def emit_def Let_def
            split: prod.splits outcome.splits)
    have cleaned: "error_free c3 \<and> od_cleanup od (u_output_dir c3) = (Return (), d4) \<longrightarrow>
         run od u_run c0
           = (fst (od_store_report od d4),
              c3\<lparr>u_output_dir := snd (od_store_report od d4),
                 events := events c3 @
                   [ExplainTopic ''Decision: Clean up files'',
                    Explain ''No warnings or errors occurred during this run'',
                    Explain ''Answer: Yes'', Called Cleanup, Called StoreReport,
                    ShowProgressExit]\<rparr>)"
      unfolding steps
      by (simp add: u_cleanup_def call_od_def emit_def Let_def split: prod.splits)
    have cleanup_raised: "error_free c3 \<and> od_cleanup od (u_output_dir c3) = (Raise ce, d4) \<longrightarrow>
         run od u_run c0
           = (Raise ce,
              c3\<lparr>u_output_dir := d4,
                 events := events c3 @
                   [ExplainTopic ''Decision: Clean up files'',
                    Explain ''No warnings or errors occurred during this run'',
                    Explain ''Answer: Yes'', Called Cleanup, ShowProgressExit]\<rparr>)"
      unfolding steps
      by (simp add: u_cleanup_def call_od_def emit_def Let_def split: prod.splits)
    have skipped: "\<not> error_free c3 \<longrightarrow>
         run od u_run c0
           = (fst (od_store_report od (u_output_dir c3)),
              c3\<lparr>u_output_dir := snd (od_store_report od (u_output_dir c3)),
                 events := events c3 @
                   [ExplainTopic ''Decision: Clean up files'',
                    Explain ''Warnings or errors occurred during this run'',
                    Explain ''Answer: No'', Called StoreReport, ShowProgressExit]\<rparr>)"
      unfolding steps
      by (simp add: u_cleanup_def call_od_def emit_def Let_def split: prod.splits)
    have untouched: "\<not> error_free c3 \<longrightarrow>
         u_output_dir (snd (run od u_run c0)) = snd (od_store_report od (u_output_dir c3))"
      using skipped by simp
    from label cleaned cleanup_raised skipped untouched
    show "(Called Cleanup \<in> set (drop (length (events c3)) (events (snd (run od u_run c0))))
         \<longleftrightarrow> error_free c3) \<and>
      (error_free c3 \<and> od_cleanup od (u_output_dir c3) = (Return (), d4) \<longrightarrow>
         run od u_run c0
           = (fst (od_store_report od d4),
              c3\<lparr>u_output_dir := snd (od_store_report od d4),
                 events := events c3 @
                   [ExplainTopic ''Decision: Clean up files'',
                    Explain ''No warnings or errors occurred during this run'',
                    Explain ''Answer: Yes'', Called Cleanup, Called StoreReport,
                    ShowProgressExit]\<rparr>)) \<and>
      (error_free c3 \<and> od_cleanup od (u_output_dir c3) = (Raise ce, d4) \<longrightarrow>
         run od u_run c0
           = (Raise ce,
              c3\<lparr>u_output_dir := d4,
                 events := events c3 @
                   [ExplainTopic ''Decision: Clean up files'',
                    Explain ''No warnings or errors occurred during this run'',
                    Explain ''Answer: Yes'', Called Cleanup, ShowProgressExit]\<rparr>)) \<and>
      (\<not> error_free c3 \<longrightarrow>
         run od u_run c0
           = (fst (od_store_report od (u_output_dir c3)),
              c3\<lparr>u_output_dir := snd (od_store_report od (u_output_dir c3)),
                 events := events c3 @
                   [ExplainTopic ''Decision: Clean up files'',
                    Explain ''Warnings or errors occurred during this run'',
                    Explain ''Answer: No'', Called StoreReport, ShowProgressExit]\<rparr>)) \<and>
      (\<not> error_free c3 \<longrightarrow>
         u_output_dir (snd (run od u_run c0)) = snd (od_store_report od (u_output_dir c3)))"
      by blast
  qed
  have failure: "is_crawler_call args \<and> f args kwargs c = (Raise e, c') \<and>
      warning_text e = Some msg \<longrightarrow>
      \<not> error_free (snd (noncritical f args kwargs c)) \<and>
      \<not> error_free (snd (anoncritical f args kwargs c))"
    by (simp add: noncritical_def anoncritical_def)
  from decision in_run failure show ?thesis
    by blast
qed

theorem cleanup_iff_error_free_witness:
  "run od_example quiet_strategy crawler_example
     = (Return (),
        crawler_example\<lparr>u_output_dir := 1101,
          events := [ShowProgressEnter, Called Prepare, Called LoadPrevReport, RunCalled,
                     ExplainTopic ''Decision: Clean up files'',
                     Explain ''No warnings or errors occurred during this run'',
                     Explain ''Answer: Yes'', Called Cleanup, Called StoreReport,
                     ShowProgressExit]\<rparr>) \<and>
   run od_example warning_strategy crawler_example
     = (Return (),
        crawler_example\<lparr>error_free := False, u_output_dir := 1001,
          events := [ShowProgressEnter, Called Prepare, Called LoadPrevReport, RunCalled,
                     Warn ''404'', ExplainTopic ''Decision: Clean up files'',
                     Explain ''Warnings or errors occurred during this run'',
                     Explain ''Answer: No'', Called StoreReport, ShowProgressExit]\<rparr>) \<and>
   u_output_dir (snd (run od_example warning_strategy crawler_example)) = 1001 \<and>
   Called Cleanup
     \<notin> set (drop (length [ShowProgressEnter, Called Prepare, Called LoadPrevReport,
                             RunCalled, Warn ''404''])
              (events (snd (run od_example warning_strategy crawler_example)))) \<and>
   u_cleanup od_example crawler_example
     = (Return (),
        crawler_example\<lparr>u_output_dir := 100,
          events := [ExplainTopic ''Decision: Clean up files'',
                     Explain ''No warnings or errors occurred during this run'',
                     Explain ''Answer: Yes'', Called Cleanup]\<rparr>) \<and>
   \<not> error_free
       (snd (anoncritical (\<lambda>args kwargs c. (Raise (CrawlWarning ''404'') :: unit outcome, c))
               [ArgCrawler] () crawler_example))"
proof -
  have clean_run: "run od_example quiet_strategy crawler_example
     = (Return (),
        crawler_example\<lparr>u_output_dir := 1101,
          events := [ShowProgressEnter, Called Prepare, Called LoadPrevReport, RunCalled,
                     ExplainTopic ''Decision: Clean up files'',
                     Explain ''No warnings or errors occurred during this run'',
                     Explain ''Answer: Yes'', Called Cleanup, Called StoreReport,
                     ShowProgressExit]\<rparr>)"
    using cleanup_iff_error_free
            [where od = od_example and c = crawler_example and ?c0.0 = crawler_example
               and u_run = quiet_strategy and ?d1.0 = 0 and ?d2.0 = 1 and ?d4.0 = 101
               and ?c3.0 = "crawler_example\<lparr>u_output_dir := 1,
                     events := [ShowProgressEnter, Called Prepare, Called LoadPrevReport,
                                RunCalled]\<rparr>"
               and args = "[]"]
    by (simp add: od_example_def crawler_example_def quiet_strategy_def)
  have warned_run: "run od_example warning_strategy crawler_example
     = (Return (),
        crawler_example\<lparr>error_free := False, u_output_dir := 1001,
          events := [ShowProgressEnter, Called Prepare, Called LoadPrevReport, RunCalled,
                     Warn ''404'', ExplainTopic ''Decision: Clean up files'',
                     Explain ''Warnings or errors occurred during this run'',
                     Explain ''Answer: No'', Called StoreReport, ShowProgressExit]\<rparr>) \<and>
   u_output_dir (snd (run od_example warning_strategy crawler_example)) = 1001 \<and>
   Called Cleanup
     \<notin> set (drop (length [ShowProgressEnter, Called Prepare, Called LoadPrevReport,
                             RunCalled, Warn ''404''])
              (events (snd (run od_example warning_strategy crawler_example)))) \<and>
   u_cleanup od_example crawler_example
     = (Return (),
        crawler_example\<lparr>u_output_dir := 100,
          events := [ExplainTopic ''Decision: Clean up files'',
                     Explain ''No warnings or errors occurred during this run'',
                     Explain ''Answer: Yes'', Called Cleanup]\<rparr>) \<and>
   \<not> error_free
       (snd (anoncritical (\<lambda>args kwargs c. (Raise (CrawlWarning ''404'') :: unit outcome, c))
               [ArgCrawler] () crawler_example))"
    using cleanup_iff_error_free
            [where od = od_example and c = crawler_example and ?c0.0 = crawler_example
               and u_run = warning_strategy and ?d1.0 = 0 and ?d2.0 = 1
               and ?c3.0 = "crawler_example\<lparr>error_free := False, u_output_dir := 1,
                     events := [ShowProgressEnter, Called Prepare, Called LoadPrevReport,
                                RunCalled, Warn ''404'']\<rparr>"
               and args = "[ArgCrawler]" and kwargs = "()"
               and f = "\<lambda>args kwargs c. (Raise (CrawlWarning ''404'') :: unit outcome, c)"
               and e = "CrawlWarning ''404''" and c' = crawler_example and msg = "''404''"]
    by (simp add: od_example_def crawler_example_def warning_strategy_def anoncritical_def
          emit_def)
  from clean_run warned_run show ?thesis
    by blast
qed

text \<open>
  C5 (as amended). \<open>gather\<close> wraps every awaitable in a task, hands the tasks to
  \<^verbatim>\<open>asyncio.gather\<close> and awaits the result. If that await raises, \<open>gather\<close> calls
  \<^verbatim>\<open>cancel()\<close> on every task, in order, and raises the same exception; it does so at
  once: there is no await after a cancel call. If the await returns, \<open>gather\<close>
  returns the list it gave and cancels nothing.
\<close>

lemma awaits_after_cancel_ensure:
  "awaits_after_cancel (map EnsureFuture xs @ es) = awaits_after_cancel es"
  by (induction xs) simp_all

lemma awaits_after_cancel_cancels: "\<not> awaits_after_cancel (map Cancel ts)"
  by (induction ts) auto

theorem gather_cancels_then_reraises:
  fixes results :: "'r list" and awaited :: "'r list outcome"
  shows
  "gather (Raise e :: 'r list outcome) awaitables tr
     = (Raise e,
        tr @ map EnsureFuture awaitables @ [AsyncioGather (map Task awaitables), Await]
           @ map Cancel (map Task awaitables)) \<and>
   gather (Return results) awaitables tr
     = (Return results,
        tr @ map EnsureFuture awaitables @ [AsyncioGather (map Task awaitables), Await]) \<and>
   \<not> awaits_after_cancel (drop (length tr) (snd (gather awaited awaitables tr)))"
proof -
  have no_wait: "\<not> awaits_after_cancel (drop (length tr) (snd (gather awaited awaitables tr)))"
    using awaits_after_cancel_cancels [of "map Task awaitables"]
    by (cases awaited)
      (simp_all add: gather_def Let_def awaits_after_cancel_ensure del: map_map)
  then show ?thesis
    by (simp add: gather_def Let_def)
qed

theorem gather_cancels_then_reraises_witness:
  "gather (Return [1, 2 :: nat]) [''a'', ''b''] []
     = (Return [1, 2],
        [EnsureFuture ''a'', EnsureFuture ''b'', AsyncioGather [Task ''a'', Task ''b''], Await]) \<and>
   gather (Raise CancelledError :: nat list outcome) [''a'', ''b''] []
     = (Raise CancelledError,
        [EnsureFuture ''a'', EnsureFuture ''b'', AsyncioGather [Task ''a'', Task ''b''], Await,
         Cancel (Task ''a''), Cancel (Task ''b'')])"
  using gather_cancels_then_reraises
          [where results = "[1, 2 :: nat]" and awaitables = "[''a'', ''b'']" and tr = "[]"
             and awaited = "Return [1, 2 :: nat]" and e = CancelledError]
  by simp

text \<open>
  C5 as stated fails: when a task fails with a hard crawl error, \<open>gather\<close> requests the
  cancellation of the tasks and raises at once. The cancel calls are the last thing it
  does, with no await after them in which a cancellation could be acknowledged.
\<close>

theorem gather_does_not_wait_counterexample:
  "gather (Raise (CrawlError ''boom'') :: nat list outcome) [''a'', ''b''] []
     = (Raise (CrawlError ''boom''),
        [EnsureFuture ''a'', EnsureFuture ''b'', AsyncioGather [Task ''a'', Task ''b''], Await,
         Cancel (Task ''a''), Cancel (Task ''b'')]) \<and>
   \<not> awaits_after_cancel
       [EnsureFuture ''a'', EnsureFuture ''b'', AsyncioGather [Task ''a'', Task ''b''], Await,
        Cancel (Task ''a''), Cancel (Task ''b'')]"
  by (simp add: gather_def)

text \<open>
  C9. \<open>error_free\<close> only ever goes from true to false. \<^verbatim>\<open>__init__\<close> sets it to true.
  After \<open>noncritical\<close> or \<open>anoncritical\<close> it can be true only if it was true in the state
  the wrapped function left (or, when the guard refuses the call, before the call).
  \<open>crawl\<close>, \<open>download\<close> and \<open>_cleanup\<close> leave it as it is. \<open>run\<close> with a strategy that
  never sets it back to true never sets it back either.
\<close>

theorem error_free_never_set_back:
  "(crawler_init to_int delay mk_limiter mk_transformer path_expanduser mk_output_dir nm sec
      = Return c0 \<longrightarrow> error_free c0) \<and>
   (error_free (snd (noncritical f args kwargs c)) \<longrightarrow>
      error_free (if is_crawler_call args then snd (f args kwargs c) else c)) \<and>
   (error_free (snd (anoncritical f args kwargs c)) \<longrightarrow>
      error_free (if is_crawler_call args then snd (f args kwargs c) else c)) \<and>
   error_free (snd (crawl fmt_path c path)) = error_free c \<and>
   error_free (snd (download fmt_path od c path mtime redownload on_conflict)) = error_free c \<and>
   error_free (snd (u_cleanup od c)) = error_free c \<and>
   ((\<forall>x. error_free (snd (u_run x)) \<longrightarrow> error_free x) \<and> error_free (snd (run od u_run c))
      \<longrightarrow> error_free c)"
proof -
  have init: "crawler_init to_int delay mk_limiter mk_transformer path_expanduser
      mk_output_dir nm sec = Return c0 \<longrightarrow> error_free c0"
    by (auto simp: crawler_init_def split: outcome.splits)
  have wrapper: "error_free (snd (noncritical f args kwargs c)) \<longrightarrow>
      error_free (if is_crawler_call args then snd (f args kwargs c) else c)"
    by (auto simp: noncritical_def split: prod.splits outcome.splits option.splits)
  have awrapper: "error_free (snd (anoncritical f args kwargs c)) \<longrightarrow>
      error_free (if is_crawler_call args then snd (f args kwargs c) else c)"
    by (auto simp: anoncritical_def split: prod.splits outcome.splits option.splits)
  have crawling: "error_free (snd (crawl fmt_path c path)) = error_free c"
    by (simp add: crawl_def emit_def Let_def)
  have downloading:
    "error_free (snd (download fmt_path od c path mtime redownload on_conflict)) = error_free c"
    by (simp add: download_def call_od_def emit_def Let_def
          split: option.splits prod.splits outcome.splits)
  have running: "(\<forall>x. error_free (snd (u_run x)) \<longrightarrow> error_free x) \<and>
      error_free (snd (run od u_run c)) \<longrightarrow> error_free c"
    using run_error_free [of u_run od c] by blast
  from init wrapper awrapper crawling downloading u_cleanup_error_free [of od c] running
  show ?thesis
    by blast
qed

theorem error_free_never_set_back_witness:
  "crawler_init to_int_example (Return (0::nat)) (\<lambda>tasks downloads d. Return ())
      (\<lambda>rules. Return (\<lambda>p. Some p)) (\<lambda>x. x) (\<lambda>p. Return (0::nat)) ''crawl:kit''
      \<lparr>s = Map.empty\<rparr>
     = Return \<lparr>name = ''crawl:kit'', error_free = True, u_limiter = (),
               u_transformer = (\<lambda>p. Some p), u_output_dir = 0, events = []\<rparr> \<and>
   \<not> error_free (snd (run od_example (\<lambda>c. (Return (), c))
                        (crawler_example\<lparr>error_free := False\<rparr>))) \<and>
   \<not> error_free (snd (noncritical (\<lambda>args kwargs c. (Return (), c)) [ArgCrawler] ()
                        (crawler_example\<lparr>error_free := False\<rparr>))) \<and>
   \<not> error_free (snd (download concat od_example (crawler_example\<lparr>error_free := False\<rparr>)
                        [''a''] None None None))"
  using error_free_never_set_back
          [where to_int = to_int_example and delay = "Return (0::nat)"
             and mk_limiter = "\<lambda>tasks downloads d. Return ()"
             and mk_transformer = "\<lambda>rules. Return (\<lambda>p. Some p)"
             and path_expanduser = "\<lambda>x. x" and mk_output_dir = "\<lambda>p. Return (0::nat)"
             and nm = "''crawl:kit''" and sec = "\<lparr>s = Map.empty\<rparr>"
             and ?c0.0 = "\<lparr>name = ''crawl:kit'', error_free = True, u_limiter = (),
               u_transformer = (\<lambda>p. Some p), u_output_dir = 0, events = []\<rparr>"
             and od = od_example and c = "crawler_example\<lparr>error_free := False\<rparr>"
             and u_run = "\<lambda>c. (Return (), c)" and f = "\<lambda>args kwargs c. (Return (), c)"
             and args = "[ArgCrawler]" and kwargs = "()" and fmt_path = concat
             and path = "[''a'']" and mtime = None and redownload = None and on_conflict = None]
  by (simp add: crawler_init_def max_concurrent_tasks_def max_concurrent_downloads_def
        getint_def transform_def output_dir_def get_fallback_def)

section \<open>Properties of the SimpleAuthenticator\<close>









end
